theory Spec2Isabelle
  imports Main "HOL-Library.Word"
begin

unbundle bit_operations_syntax

section \<open>Kubernetes objects read and written by the istio-operator\<close>

text \<open>
  Go strings are byte sequences; they are modelled as \<open>string\<close> (a list of 8-bit
  characters).  Go maps with string keys are association lists with \<open>map_of\<close> as lookup.
\<close>

type_synonym bytes = string
type_synonym labels = "(string \<times> string) list"

text \<open>\<open>metav1.Condition\<close>: only \<open>Type\<close> and \<open>Status\<close> are read by the operator.\<close>

record Condition =
  cond_Type :: string
  cond_Status :: string

text \<open>
  \<open>kcmv1beta1.ClusterDeployment\<close>, restricted to the fields the operator reads:
  \<open>ObjectMeta.Name\<close>, \<open>ObjectMeta.Namespace\<close>, \<open>ObjectMeta.Labels\<close>,
  \<open>Spec.Template\<close>, \<open>Spec.Credential\<close> and \<open>Status.Conditions\<close>.
\<close>

record ClusterDeployment =
  cd_Name :: string
  cd_Namespace :: string
  cd_Labels :: labels
  cd_Template :: string
  cd_Credential :: string
  cd_Conditions :: "Condition list"

text \<open>Condition types of the KCM API (\<open>kcmv1beta1.ReadyCondition\<close>,
  \<open>kcmv1beta1.CAPIClusterSummaryCondition\<close>).\<close>

definition ReadyCondition :: string where
  "ReadyCondition = ''Ready''"

definition CAPIClusterSummaryCondition :: string where
  "CAPIClusterSummaryCondition = ''CAPIClusterSummary''"

section \<open>Package utils\<close>

text \<open>Go's \<open>strings.HasPrefix\<close>.\<close>

definition HasPrefix :: "string \<Rightarrow> string \<Rightarrow> bool" where
  "HasPrefix s p = (length p \<le> length s \<and> take (length p) s = p)"

definition IsAdopted :: "ClusterDeployment \<Rightarrow> bool" where
  "IsAdopted cluster = HasPrefix (cd_Template cluster) ''adopted-''"

text \<open>
  \<open>IsClusterDeploymentReady\<close>: the loop over the conditions, with the local variable
  \<open>readiness\<close> as accumulator.
\<close>

fun readiness_loop :: "ClusterDeployment \<Rightarrow> Condition list \<Rightarrow> bool \<Rightarrow> bool" where
  "readiness_loop cd [] readiness = readiness"
| "readiness_loop cd (condition # rest) readiness =
     readiness_loop cd rest
       (if IsAdopted cd
        then (if cond_Type condition = ReadyCondition then True else readiness)
        else (if cond_Type condition = CAPIClusterSummaryCondition then True else readiness))"

definition IsClusterDeploymentReady :: "ClusterDeployment \<Rightarrow> bool" where
  "IsClusterDeploymentReady cd = readiness_loop cd (cd_Conditions cd) False"

subsection \<open>Name hashing\<close>

text \<open>\<open>hash/fnv\<close>, \<open>New32a\<close>: FNV-1a on 32 bits, offset basis \<open>0x811c9dc5\<close>,
  prime \<open>0x01000193\<close>; each byte is xor-ed in, then the hash is multiplied.\<close>

definition fnv_offset32 :: "32 word" where
  "fnv_offset32 = 2166136261"

definition fnv_prime32 :: "32 word" where
  "fnv_prime32 = 16777619"

fun fnv32a_write :: "32 word \<Rightarrow> bytes \<Rightarrow> 32 word" where
  "fnv32a_write h [] = h"
| "fnv32a_write h (c # cs) = fnv32a_write ((h XOR of_nat (of_char c)) * fnv_prime32) cs"

definition fnv32a_Sum32 :: "bytes \<Rightarrow> 32 word" where
  "fnv32a_Sum32 name = fnv32a_write fnv_offset32 name"

text \<open>The verb \<open>%x\<close> of \<open>fmt.Sprintf\<close> on an unsigned integer: lowercase hexadecimal
  digits, no leading zeros.\<close>

definition hex_digit :: "nat \<Rightarrow> char" where
  "hex_digit d = ''0123456789abcdef'' ! d"

fun sprintf_x :: "nat \<Rightarrow> string" where
  "sprintf_x n = (if n < 16 then [hex_digit n] else sprintf_x (n div 16) @ [hex_digit (n mod 16)])"

declare sprintf_x.simps [simp del]

definition GetNameHash :: "string \<Rightarrow> string \<Rightarrow> string" where
  "GetNameHash prefix name = prefix @ ''-'' @ sprintf_x (unat (fnv32a_Sum32 name))"

section \<open>Package istio: process-wide names\<close>

definition IstioRoleLabel :: string where
  "IstioRoleLabel = ''k0rdent.mirantis.com/istio-role''"

definition IstioRoleLabelExpectedValues :: "string list" where
  "IstioRoleLabelExpectedValues = [''member'', ''child'']"

text \<open>
  \<open>istio.IstioSystemNamespace\<close> and \<open>istio.IstioReleaseName\<close> are package variables
  set at process start; they are the two fields of a configuration passed to every
  function that reads them.
\<close>

record config =
  IstioSystemNamespace :: string
  IstioReleaseName :: string

section \<open>Derived names\<close>

definition GetCertName :: "config \<Rightarrow> string \<Rightarrow> string \<Rightarrow> string" where
  "GetCertName cfg clusterName namespace =
     IstioReleaseName cfg @ ''-'' @ namespace @ ''-'' @ clusterName @ ''-ca''"

definition GetCertNameHash :: "config \<Rightarrow> string \<Rightarrow> string \<Rightarrow> string" where
  "GetCertNameHash cfg clusterName namespace =
     GetNameHash ''ca-cert-propagation'' (GetCertName cfg clusterName namespace)"

definition remoteSecretPrefix :: string where
  "remoteSecretPrefix = ''istio-remote-secret''"

definition GetRemoteSecretName :: "string \<Rightarrow> string \<Rightarrow> string" where
  "GetRemoteSecretName clusterName namespace =
     GetNameHash remoteSecretPrefix (namespace @ ''-'' @ clusterName)"

definition GetMultiClusterServiceName :: "string \<Rightarrow> string \<Rightarrow> string" where
  "GetMultiClusterServiceName clusterName namespace =
     GetNameHash ''remote-secret-propagation'' (namespace @ ''-'' @ clusterName)"

section \<open>Package cert: the intermediate CA certificate request\<close>

text \<open>\<open>cmv1.PrivateKeyAlgorithm\<close> of cert-manager.\<close>

datatype PrivateKeyAlgorithm = RSAKeyAlgorithm | ECDSAKeyAlgorithm | Ed25519KeyAlgorithm

text \<open>\<open>cmmetav1.ObjectReference\<close>: the issuer of a certificate.\<close>

record IssuerRef =
  issuer_Name :: string
  issuer_Kind :: string
  issuer_Group :: string

text \<open>\<open>cmv1.Certificate\<close>, with the fields the operator sets.\<close>

record Certificate =
  cert_Name :: string
  cert_Namespace :: string
  cert_Labels :: labels
  cert_IsCA :: bool
  cert_CommonName :: string
  cert_Organizations :: "string list"
  cert_KeyAlgorithm :: PrivateKeyAlgorithm
  cert_KeySize :: nat
  cert_SecretName :: string
  cert_IssuerRef :: IssuerRef

definition generateClusterCACertificate :: "config \<Rightarrow> ClusterDeployment \<Rightarrow> Certificate" where
  "generateClusterCACertificate cfg cd =
     (let certName = GetCertName cfg (cd_Name cd) (cd_Namespace cd) in
      \<lparr> cert_Name = certName,
        cert_Namespace = IstioSystemNamespace cfg,
        cert_Labels = [(''app.kubernetes.io/managed-by'', ''istio-operator'')],
        cert_IsCA = True,
        cert_CommonName = cd_Name cd @ '' CA'',
        cert_Organizations = [''Istio''],
        cert_KeyAlgorithm = ECDSAKeyAlgorithm,
        cert_KeySize = 521,
        cert_SecretName = certName,
        cert_IssuerRef =
          \<lparr> issuer_Name = IstioReleaseName cfg @ ''-root'',
            issuer_Kind = ''Issuer'',
            issuer_Group = ''cert-manager.io'' \<rparr> \<rparr>)"

section \<open>Package multicluster: the propagation descriptor of the remote secret\<close>

definition ManagedByLabel :: string where
  "ManagedByLabel = ''app.kubernetes.io/managed-by''"

definition ManagedByValue :: string where
  "ManagedByValue = ''istio-operator''"

definition IstioMeshLabel :: string where
  "IstioMeshLabel = ''k0rdent.mirantis.com/istio-mesh''"

text \<open>\<open>kcmv1beta1.Service\<close> and the \<open>TemplateResourceRef\<close> of the addon controller.\<close>

record Service =
  svc_Name :: string
  svc_Namespace :: string
  svc_Template :: string

record TemplateResourceRef =
  ref_Identifier :: string
  ref_APIVersion :: string
  ref_Kind :: string
  ref_Name :: string
  ref_Namespace :: string

text \<open>\<open>kcmv1beta1.MultiClusterService\<close> (cluster scoped): the cluster selector is the
  \<open>MatchLabels\<close> map of a \<open>metav1.LabelSelector\<close>.\<close>

record MultiClusterService =
  mcs_Name :: string
  mcs_Labels :: labels
  mcs_ClusterSelector :: labels
  mcs_Services :: "Service list"
  mcs_TemplateResourceRefs :: "TemplateResourceRef list"

text \<open>The object literal built by \<open>RemoteSecretPropagationManager.createMultiClusterService\<close>.\<close>

definition remoteSecretMultiClusterService :: "config \<Rightarrow> ClusterDeployment \<Rightarrow> MultiClusterService" where
  "remoteSecretMultiClusterService cfg cd =
     \<lparr> mcs_Name = GetMultiClusterServiceName (cd_Name cd) (cd_Namespace cd),
       mcs_Labels =
         [(ManagedByLabel, ManagedByValue),
          (''cluster-name'', cd_Name cd),
          (''cluster-namespace'', cd_Namespace cd)],
       mcs_ClusterSelector = [(IstioRoleLabel, ''member'')],
       mcs_Services =
         [\<lparr> svc_Name = ''istio-secret-propagation'',
            svc_Namespace = IstioSystemNamespace cfg,
            svc_Template = IstioReleaseName cfg @ ''-base-propagation'' \<rparr>],
       mcs_TemplateResourceRefs =
         [\<lparr> ref_Identifier = ''Secret'',
            ref_APIVersion = ''v1'',
            ref_Kind = ''Secret'',
            ref_Name = GetRemoteSecretName (cd_Name cd) (cd_Namespace cd),
            ref_Namespace = IstioSystemNamespace cfg \<rparr>] \<rparr>"

text \<open>The object literal built by \<open>CertManager.createCaMultiClusterService\<close>; the Go map
  index \<open>cd.Labels[utils.IstioMeshLabel]\<close> yields the empty string for a missing key.\<close>

definition caMultiClusterService :: "config \<Rightarrow> ClusterDeployment \<Rightarrow> MultiClusterService" where
  "caMultiClusterService cfg cd =
     \<lparr> mcs_Name = GetCertNameHash cfg (cd_Name cd) (cd_Namespace cd),
       mcs_Labels =
         [(ManagedByLabel, ManagedByValue),
          (''cluster-name'', cd_Name cd),
          (''cluster-namespace'', cd_Namespace cd)],
       mcs_ClusterSelector =
         [(IstioMeshLabel, (case map_of (cd_Labels cd) IstioMeshLabel of None \<Rightarrow> [] | Some v \<Rightarrow> v)),
          (''k0rdent.mirantis.com/kcm-region-cluster'', ''true'')],
       mcs_Services =
         [\<lparr> svc_Name = ''istio-secret-propagation'',
            svc_Namespace = IstioSystemNamespace cfg,
            svc_Template = IstioReleaseName cfg @ ''-base-propagation'' \<rparr>],
       mcs_TemplateResourceRefs =
         [\<lparr> ref_Identifier = ''Data'',
            ref_APIVersion = ''v1'',
            ref_Kind = ''Secret'',
            ref_Name = GetCertName cfg (cd_Name cd) (cd_Namespace cd),
            ref_Namespace = IstioSystemNamespace cfg \<rparr>] \<rparr>"

section \<open>Errors\<close>

text \<open>
  A Go \<open>error\<close> is either a status error of the API server or an error built by
  \<open>fmt.Errorf\<close> / \<open>errors.New\<close>.  Of the status errors the code only asks
  \<open>IsNotFound\<close> and \<open>IsAlreadyExists\<close>; every other one (timeout, connection refused,
  forbidden, ...) is \<open>StatusOther\<close>.  An error built by \<open>fmt.Errorf\<close> is kept as its
  format string with its arguments, unformatted.
\<close>

datatype error =
    StatusNotFound
  | StatusAlreadyExists
  | StatusOther
  | Errorf string "errarg list"
and errarg =
    ArgS string
  | ArgN nat
  | ArgE error

definition IsNotFound :: "error \<Rightarrow> bool" where
  "IsNotFound err = (err = StatusNotFound)"

definition IsAlreadyExists :: "error \<Rightarrow> bool" where
  "IsAlreadyExists err = (err = StatusAlreadyExists)"

section \<open>Package remotesecret: building the credential from the target cluster\<close>

text \<open>\<open>corev1.Secret\<close>; \<open>Data\<close> is a Go map from key to bytes.\<close>

record Secret =
  sec_Name :: string
  sec_Namespace :: string
  sec_Labels :: labels
  sec_Annotations :: labels
  sec_Type :: string
  sec_Data :: "(string \<times> bytes) list"

text \<open>\<open>corev1.ServiceAccount\<close> with its list of \<open>ObjectReference\<close>s to token secrets.\<close>

record ObjectReference =
  oref_Name :: string
  oref_Namespace :: string


datatype RemoteSecretAuthType = RemoteSecretAuthTypeBearerToken | RemoteSecretAuthTypePlugin
  | RemoteSecretAuthTypeUnknown string

datatype SecretType = SecretTypeRemote | SecretTypeConfig | SecretTypeUnknown string





subsection \<open>The legacy path: reading a token secret listed by the service account\<close>



subsection \<open>Waiting for the data of the token secret\<close>














subsection \<open>Example target clusters\<close>


definition filled_secret :: "string \<Rightarrow> string \<Rightarrow> Secret" where
  "filled_secret ns name =
     \<lparr> sec_Name = name, sec_Namespace = ns, sec_Labels = [], sec_Annotations = [],
       sec_Type = ''Opaque'',
       sec_Data = [(''token'', ''abc''), (''namespace'', ns), (''ca.crt'', ''PEM'')] \<rparr>"






section \<open>The API server of the management cluster\<close>

text \<open>\<open>crds.Credential\<close> and \<open>crds.Region\<close>, restricted to the fields the operator reads:
  the region of a credential; the cluster deployment or the kubeconfig secret a region
  refers to.\<close>

record Credential =
  cred_Name :: string
  cred_Namespace :: string
  cred_Region :: string

record Region =
  region_Name :: string
  region_ClusterDeployment :: "ObjectReference option"
  region_KubeConfig :: "string option"

datatype kind =
  KSecret | KCertificate | KMultiClusterService | KClusterDeployment | KCredential | KRegion

datatype obj =
    OSecret Secret
  | OCertificate Certificate
  | OMultiClusterService MultiClusterService
  | OClusterDeployment ClusterDeployment
  | OCredential Credential
  | ORegion Region

text \<open>An object is addressed by its kind, namespace and name (\<open>types.NamespacedName\<close>);
  cluster-scoped kinds have the empty namespace.\<close>

type_synonym key = "kind \<times> string \<times> string"

fun obj_key :: "obj \<Rightarrow> key" where
  "obj_key (OSecret s) = (KSecret, sec_Namespace s, sec_Name s)"
| "obj_key (OCertificate c) = (KCertificate, cert_Namespace c, cert_Name c)"
| "obj_key (OMultiClusterService m) = (KMultiClusterService, [], mcs_Name m)"
| "obj_key (OClusterDeployment cd) = (KClusterDeployment, cd_Namespace cd, cd_Name cd)"
| "obj_key (OCredential c) = (KCredential, cred_Namespace c, cred_Name c)"
| "obj_key (ORegion r) = (KRegion, [], region_Name r)"

fun obj_labels :: "obj \<Rightarrow> labels" where
  "obj_labels (OSecret s) = sec_Labels s"
| "obj_labels (OCertificate c) = cert_Labels c"
| "obj_labels (OMultiClusterService m) = mcs_Labels m"
| "obj_labels (OClusterDeployment cd) = cd_Labels cd"
| "obj_labels (OCredential c) = []"
| "obj_labels (ORegion r) = []"

datatype verb = Get | List | Create | Delete | Update | Patch

datatype logval = VStr string | VNat nat

datatype log_line =
    Info string "(string \<times> logval) list"
  | Error error string "(string \<times> logval) list"

text \<open>An event of package \<open>record\<close>: normal or warning, about the object with the given
  namespace and name, with a reason, a message format and its arguments.\<close>

datatype event =
    Event string string string string "string list"
  | Warn string string string string "string list"

text \<open>
  The state the operator acts on.  \<open>objs\<close> are the objects of the API server, in the order
  in which a list request returns them.  \<open>calls\<close> is the trace of the requests the
  operator has issued, oldest first.  The API server may fail any request with an error
  other than not-found and already-exists (unreachable, timeout, ...): \<open>faults w n v k\<close>
  tells whether the request \<open>v k\<close> fails when \<open>n\<close> requests have been issued before it.
  \<open>events\<close> and \<open>logs\<close> collect the events recorded and the lines logged.
\<close>

record world =
  objs :: "(key \<times> obj) list"
  faults :: "nat \<Rightarrow> verb \<Rightarrow> key \<Rightarrow> bool"
  calls :: "(verb \<times> key) list"
  events :: "event list"
  logs :: "log_line list"

definition api_fault :: "verb \<Rightarrow> key \<Rightarrow> world \<Rightarrow> bool" where
  "api_fault v k w = faults w (length (calls w)) v k"

definition record_call :: "verb \<Rightarrow> key \<Rightarrow> world \<Rightarrow> world" where
  "record_call v k w = w\<lparr>calls := calls w @ [(v, k)]\<rparr>"

definition client_Get :: "key \<Rightarrow> world \<Rightarrow> (error + obj) \<times> world" where
  "client_Get k w =
     ((if api_fault Get k w then Inl StatusOther
       else (case map_of (objs w) k of None \<Rightarrow> Inl StatusNotFound | Some ob \<Rightarrow> Inr ob)),
      record_call Get k w)"

definition client_Create :: "obj \<Rightarrow> world \<Rightarrow> error option \<times> world" where
  "client_Create ob w =
     (if api_fault Create (obj_key ob) w then (Some StatusOther, record_call Create (obj_key ob) w)
      else if map_of (objs w) (obj_key ob) \<noteq> None
      then (Some StatusAlreadyExists, record_call Create (obj_key ob) w)
      else (None, (record_call Create (obj_key ob) w)\<lparr>objs := objs w @ [(obj_key ob, ob)]\<rparr>))"

definition client_Delete :: "key \<Rightarrow> world \<Rightarrow> error option \<times> world" where
  "client_Delete k w =
     (if api_fault Delete k w then (Some StatusOther, record_call Delete k w)
      else if map_of (objs w) k = None then (Some StatusNotFound, record_call Delete k w)
      else (None, (record_call Delete k w)\<lparr>objs := filter (\<lambda>entry. fst entry \<noteq> k) (objs w)\<rparr>))"

text \<open>Label selectors (\<open>labels.Requirement\<close>): the operators the API knows for a key and
  a set of values, and \<open>Requirement.Matches\<close>.\<close>

datatype operator = Exists | DoesNotExist | In | NotIn

datatype requirement = Requirement string operator "string list"

fun requirement_matches :: "labels \<Rightarrow> requirement \<Rightarrow> bool" where
  "requirement_matches ls (Requirement k Exists vs) = (map_of ls k \<noteq> None)"
| "requirement_matches ls (Requirement k DoesNotExist vs) = (map_of ls k = None)"
| "requirement_matches ls (Requirement k In vs) =
     (case map_of ls k of None \<Rightarrow> False | Some v \<Rightarrow> v \<in> set vs)"
| "requirement_matches ls (Requirement k NotIn vs) =
     (case map_of ls k of None \<Rightarrow> True | Some v \<Rightarrow> v \<notin> set vs)"

definition selector_matches :: "requirement list \<Rightarrow> labels \<Rightarrow> bool" where
  "selector_matches selector ls = list_all (requirement_matches ls) selector"

text \<open>A list request for a kind over all namespaces; its key in the trace has an empty
  namespace and name.\<close>

definition client_List :: "kind \<Rightarrow> requirement list \<Rightarrow> world \<Rightarrow> (error + obj list) \<times> world" where
  "client_List knd selector w =
     ((if api_fault List (knd, [], []) w then Inl StatusOther
       else Inr (map snd (filter (\<lambda>entry. fst (fst entry) = knd
                    \<and> selector_matches selector (obj_labels (snd entry))) (objs w)))),
      record_call List (knd, [], []) w)"

definition log_Info :: "string \<Rightarrow> (string \<times> logval) list \<Rightarrow> world \<Rightarrow> world" where
  "log_Info msg kvs w = w\<lparr>logs := logs w @ [Info msg kvs]\<rparr>"

definition log_Error :: "error \<Rightarrow> string \<Rightarrow> (string \<times> logval) list \<Rightarrow> world \<Rightarrow> world" where
  "log_Error err msg kvs w = w\<lparr>logs := logs w @ [Error err msg kvs]\<rparr>"

text \<open>\<open>record.Eventf\<close> on a cluster deployment (the annotations argument is dropped).\<close>

definition Eventf :: "string \<Rightarrow> string \<Rightarrow> string \<Rightarrow> string \<Rightarrow> string list \<Rightarrow> world \<Rightarrow> world" where
  "Eventf namespace name reason fmt args w =
     w\<lparr>events := events w @ [Event namespace name reason fmt args]\<rparr>"

text \<open>\<open>utils.LogEvent\<close>: a log line and an event from the same arguments; with an error,
  an error line and a warning.  The key-value pairs stay with the log line.\<close>

definition LogEvent ::
  "string \<Rightarrow> string \<Rightarrow> string \<Rightarrow> string \<Rightarrow> error option \<Rightarrow> (string \<times> logval) list \<Rightarrow> world \<Rightarrow> world" where
  "LogEvent reason message namespace name err kvs w =
     (case err of
        None \<Rightarrow> (log_Info message kvs w)
                  \<lparr>events := events w @ [Event namespace name reason message []]\<rparr>
      | Some e \<Rightarrow> (log_Error e message kvs w)
                  \<lparr>events := events w @ [Warn namespace name reason message []]\<rparr>)"

text \<open>\<open>utils.IsResourceExists\<close>.\<close>

definition IsResourceExists :: "key \<Rightarrow> world \<Rightarrow> (error + bool) \<times> world" where
  "IsResourceExists k w =
     (case client_Get k w of
        (Inl err, w') \<Rightarrow> (if IsNotFound err then (Inr False, w') else (Inl err, w'))
      | (Inr ob, w') \<Rightarrow> (Inr True, w'))"

definition IsInMesh :: "ClusterDeployment \<Rightarrow> bool" where
  "IsInMesh cd = (map_of (cd_Labels cd) IstioMeshLabel \<noteq> None)"

section \<open>Package k8s: secrets, credentials and regions\<close>

definition DefaultKCMSystemNamespace :: string where
  "DefaultKCMSystemNamespace = ''kcm-system''"

text \<open>\<open>GetSecret\<close>: an object of another kind cannot be decoded into a \<open>corev1.Secret\<close>.\<close>

definition GetSecret :: "string \<Rightarrow> string \<Rightarrow> world \<Rightarrow> (error + Secret) \<times> world" where
  "GetSecret name namespace w =
     (case client_Get (KSecret, namespace, name) w of
        (Inl err, w') \<Rightarrow> (Inl err, w')
      | (Inr (OSecret secret), w') \<Rightarrow> (Inr secret, w')
      | (Inr _, w') \<Rightarrow> (Inl StatusOther, w'))"

definition GetSecretValue :: "Secret \<Rightarrow> bytes option" where
  "GetSecretValue secret = map_of (sec_Data secret) ''value''"

definition GetKubeconfigFromSecret :: "string \<Rightarrow> world \<Rightarrow> (error + bytes) \<times> world" where
  "GetKubeconfigFromSecret secretName w =
     (case GetSecret secretName DefaultKCMSystemNamespace w of
        (Inl err, w') \<Rightarrow> (Inl (Errorf ''failed to get secret: %v'' [ArgE err]), w')
      | (Inr secret, w') \<Rightarrow>
          (case GetSecretValue secret of
             None \<Rightarrow> (Inl (Errorf ''kubeconfig is empty'' []), w')
           | Some kubeconfig \<Rightarrow> (Inr kubeconfig, w')))"

definition CreatedInKCMRegion :: "ClusterDeployment \<Rightarrow> world \<Rightarrow> (error + bool) \<times> world" where
  "CreatedInKCMRegion cd w =
     (case client_Get (KCredential, DefaultKCMSystemNamespace, cd_Credential cd) w of
        (Inl err, w') \<Rightarrow> (Inl err, w')
      | (Inr (OCredential cred), w') \<Rightarrow> (Inr (cred_Region cred \<noteq> []), w')
      | (Inr _, w') \<Rightarrow> (Inl StatusOther, w'))"

fun find_credential_region :: "string \<Rightarrow> obj list \<Rightarrow> string" where
  "find_credential_region wanted [] = []"
| "find_credential_region wanted (OCredential cred # rest) =
     (if cred_Name cred = wanted then cred_Region cred else find_credential_region wanted rest)"
| "find_credential_region wanted (other # rest) = find_credential_region wanted rest"

definition GetKcmRegionClusterNameRelatedToClusterDeployment ::
  "ClusterDeployment \<Rightarrow> world \<Rightarrow> (error + string) \<times> world" where
  "GetKcmRegionClusterNameRelatedToClusterDeployment cd w =
     (case client_List KCredential [] w of
        (Inl err, w') \<Rightarrow> (Inl err, w')
      | (Inr items, w') \<Rightarrow> (Inr (find_credential_region (cd_Credential cd) items), w'))"

section \<open>The environment of the managers\<close>

text \<open>
  What the managers use and this repository's sources do not define: the two package
  variables (\<open>env_cfg\<close>); \<open>k8s.GetSecretName\<close>, the name of the secret that holds the
  kubeconfig of a cluster deployment; \<open>k8s.NewKubeClientFromKubeconfig\<close>, which connects
  to the cluster a kubeconfig describes (a region cluster is another API server, of which
  the operator only reads); and the \<open>GetRemoteSecret\<close> method of the interface
  \<open>IIstioRemoteSecretCreator\<close> embedded in \<open>RemoteSecretManager\<close>, whose implementations
  are the real creator and the fake one of the tests.
\<close>

record CreateOptions =
  AllowOverwrite :: bool

record env =
  env_cfg :: config
  env_GetSecretName :: "ClusterDeployment \<Rightarrow> string"
  env_NewKubeClientFromKubeconfig :: "bytes \<Rightarrow> error + world"
  env_GetRemoteSecret :: "bytes \<Rightarrow> ClusterDeployment \<Rightarrow> CreateOptions \<Rightarrow> error + Secret"

text \<open>\<open>FakeRemoteSecretCreator.GetRemoteSecret\<close> (its \<open>StringData\<close> is what the API
  server stores as \<open>Data\<close>).\<close>

definition FakeRemoteSecretCreator_GetRemoteSecret ::
  "config \<Rightarrow> bytes \<Rightarrow> ClusterDeployment \<Rightarrow> CreateOptions \<Rightarrow> error + Secret" where
  "FakeRemoteSecretCreator_GetRemoteSecret cfg kubeconfig cd opt =
     Inr \<lparr> sec_Name = GetRemoteSecretName (cd_Name cd) (cd_Namespace cd),
           sec_Namespace = IstioSystemNamespace cfg, sec_Labels = [], sec_Annotations = [],
           sec_Type = [], sec_Data = [(''value'', ''Fake values'')] \<rparr>"

definition GetKubeconfigByRegionName :: "env \<Rightarrow> string \<Rightarrow> world \<Rightarrow> (error + bytes option) \<times> world" where
  "GetKubeconfigByRegionName env regionName w =
     (if regionName = [] then (Inl (Errorf ''region name is empty'' []), w)
      else
        (case client_Get (KRegion, [], regionName) w of
           (Inl err, w1) \<Rightarrow>
             (Inl (Errorf ''failed to get Region %s: %v'' [ArgS regionName, ArgE err]), w1)
         | (Inr (ORegion region), w1) \<Rightarrow>
             (case region_ClusterDeployment region of
                Some cdref \<Rightarrow>
                  (case client_Get (KClusterDeployment, oref_Namespace cdref, oref_Name cdref) w1 of
                     (Inl err, w2) \<Rightarrow>
                       (Inl (Errorf ''failed to get ClusterDeployment %s: %v''
                               [ArgS (oref_Name cdref), ArgE err]), w2)
                   | (Inr (OClusterDeployment cd), w2) \<Rightarrow>
                       (case GetKubeconfigFromSecret (env_GetSecretName env cd) w2 of
                          (Inl err, w3) \<Rightarrow>
                            (Inl (Errorf ''failed to get kubeconfig from ClusterDeployment: %v''
                                    [ArgE err]), w3)
                        | (Inr kubeconfig, w3) \<Rightarrow> (Inr (Some kubeconfig), w3))
                   | (Inr _, w2) \<Rightarrow>
                       (Inl (Errorf ''failed to get ClusterDeployment %s: %v''
                               [ArgS (oref_Name cdref), ArgE StatusOther]), w2))
              | None \<Rightarrow>
                  (case region_KubeConfig region of
                     Some secretName \<Rightarrow>
                       (case GetKubeconfigFromSecret secretName w1 of
                          (Inl err, w2) \<Rightarrow> (Inl err, w2)
                        | (Inr kubeconfig, w2) \<Rightarrow> (Inr (Some kubeconfig), w2))
                   | None \<Rightarrow> (Inr None, w1)))
         | (Inr _, w1) \<Rightarrow>
             (Inl (Errorf ''failed to get Region %s: %v'' [ArgS regionName, ArgE StatusOther]), w1)))"

section \<open>Package remotesecret: the manager of the remote secret\<close>

definition remoteSecretExists :: "env \<Rightarrow> ClusterDeployment \<Rightarrow> world \<Rightarrow> (error + bool) \<times> world" where
  "remoteSecretExists env cd w =
     IsResourceExists
       (KSecret, IstioSystemNamespace (env_cfg env),
        GetRemoteSecretName (cd_Name cd) (cd_Namespace cd)) w"

text \<open>\<open>createSecretResource\<close>: delete, tolerating not-found, then create.\<close>

definition createSecretResource :: "Secret \<Rightarrow> world \<Rightarrow> error option \<times> world" where
  "createSecretResource secret w =
     (case client_Delete (obj_key (OSecret secret)) w of
        (Some err, w1) \<Rightarrow>
          (if \<not> IsNotFound err then (Some err, w1) else client_Create (OSecret secret) w1)
      | (None, w1) \<Rightarrow> client_Create (OSecret secret) w1)"

text \<open>The part of \<open>TryCreate\<close> that fetches the bootstrap kubeconfig of the cluster, from
  the management cluster or through the region the cluster's credential names.\<close>

definition TryCreate_kubeconfig :: "env \<Rightarrow> ClusterDeployment \<Rightarrow> world \<Rightarrow> (error + bytes) \<times> world" where
  "TryCreate_kubeconfig env cd w =
     (case CreatedInKCMRegion cd w of
        (Inl err, w1) \<Rightarrow> (Inl (Errorf ''failed to determine cluster region: %v'' [ArgE err]), w1)
      | (Inr createdInKCMRegion, w1) \<Rightarrow>
          (if createdInKCMRegion
           then
             (case GetKcmRegionClusterNameRelatedToClusterDeployment cd w1 of
                (Inl err, w2) \<Rightarrow>
                  (Inl (Errorf ''failed to get cluster region: %v'' [ArgE err]), w2)
              | (Inr regionClusterName, w2) \<Rightarrow>
                  (case GetKubeconfigByRegionName env regionClusterName w2 of
                     (Inl err, w3) \<Rightarrow>
                       (Inl (Errorf ''failed to get kubeconfig by region name: %v'' [ArgE err]), w3)
                   | (Inr None, w3) \<Rightarrow>
                       (Inl (Errorf ''no kubeconfig found for region cluster name: %s''
                               [ArgS regionClusterName]), w3)
                   | (Inr (Some regionKubeconfig), w3) \<Rightarrow>
                       (case env_NewKubeClientFromKubeconfig env regionKubeconfig of
                          Inl err \<Rightarrow>
                            (Inl (Errorf ''failed to create kube client from region kubeconfig: %v''
                                    [ArgE err]), w3)
                        | Inr regionclient \<Rightarrow>
                            (case fst (GetKubeconfigFromSecret (env_GetSecretName env cd) regionclient) of
                               Inl err \<Rightarrow>
                                 (Inl (Errorf ''failed to get kubeconfig from secret: %v''
                                         [ArgE err]), w3)
                             | Inr kubeconfig \<Rightarrow> (Inr kubeconfig, w3)))))
           else
             (case GetKubeconfigFromSecret (env_GetSecretName env cd) w1 of
                (Inl err, w2) \<Rightarrow>
                  (Inl (Errorf ''failed to get kubeconfig from secret: %v'' [ArgE err]), w2)
              | (Inr kubeconfig, w2) \<Rightarrow> (Inr kubeconfig, w2))))"

definition RemoteSecretManager_sendCreationEvent :: "ClusterDeployment \<Rightarrow> world \<Rightarrow> world" where
  "RemoteSecretManager_sendCreationEvent cd w =
     Eventf (cd_Namespace cd) (cd_Name cd) ''SecretCreated''
       ''Istio remote secret '%s' is successfully created''
       [GetRemoteSecretName (cd_Name cd) (cd_Namespace cd)] w"

definition RemoteSecretManager_TryCreate ::
  "env \<Rightarrow> ClusterDeployment \<Rightarrow> CreateOptions \<Rightarrow> world \<Rightarrow> error option \<times> world" where
  "RemoteSecretManager_TryCreate env clusterDeployment opt w =
     (let w0 = log_Info ''Trying to create remote secret'' [] w in
      if \<not> IsClusterDeploymentReady clusterDeployment
      then (None, log_Info ''Cluster deployment is not ready'' [] w0)
      else
        (case (if \<not> AllowOverwrite opt then remoteSecretExists env clusterDeployment w0
               else (Inr False, w0)) of
           (Inl err, w1) \<Rightarrow> (Some (Errorf ''failed to check remote secret: %v'' [ArgE err]), w1)
         | (Inr True, w1) \<Rightarrow> (None, log_Info ''Remote secret already exists'' [] w1)
         | (Inr False, w1) \<Rightarrow>
             (case TryCreate_kubeconfig env clusterDeployment w1 of
                (Inl err, w2) \<Rightarrow> (Some err, w2)
              | (Inr kubeconfig, w2) \<Rightarrow>
                  (case env_GetRemoteSecret env kubeconfig clusterDeployment opt of
                     Inl err \<Rightarrow>
                       (Some (Errorf ''failed to create remote secret: %v'' [ArgE err]), w2)
                   | Inr remoteSecret \<Rightarrow>
                       (case createSecretResource remoteSecret w2 of
                          (Some err, w3) \<Rightarrow>
                            (Some (Errorf ''failed to create remote secret: %v'' [ArgE err]),
                             log_Error err ''failed to create remote secret'' [] w3)
                        | (None, w3) \<Rightarrow>
                            (None, log_Info ''Remote secret successfully created'' []
                                     (RemoteSecretManager_sendCreationEvent clusterDeployment w3)))))))"

definition RemoteSecretManager_TryDelete :: "env \<Rightarrow> string \<Rightarrow> string \<Rightarrow> world \<Rightarrow> error option \<times> world" where
  "RemoteSecretManager_TryDelete env name namespace w =
     (case client_Delete
             (KSecret, IstioSystemNamespace (env_cfg env), GetRemoteSecretName name namespace)
             (log_Info ''Trying to delete remote secret'' [] w) of
        (Some err, w1) \<Rightarrow>
          (if IsNotFound err then (None, log_Info ''Remote secret already deleted'' [] w1)
           else (Some err, w1))
      | (None, w1) \<Rightarrow>
          (None, log_Info ''Remote secret successfully deleted'' []
                   (Eventf namespace name ''SecretDeleted''
                      ''Istio remote secret '%s' is successfully deleted''
                      [GetRemoteSecretName name namespace] w1)))"

section \<open>Package cert: the manager of the intermediate CA certificate\<close>

definition createCertificate :: "config \<Rightarrow> Certificate \<Rightarrow> ClusterDeployment \<Rightarrow> world \<Rightarrow> error option \<times> world" where
  "createCertificate cfg cert clusterDeployment w =
     (case client_Create (OCertificate cert)
             (log_Info ''Creating Intermediate Istio CA certificate''
                [(''certificateName'', VStr (cert_Name cert))] w) of
        (Some err, w1) \<Rightarrow>
          (if IsAlreadyExists err
           then (None, log_Info ''Istio CA certificate already exists''
                         [(''certificateName'', VStr (cert_Name cert))] w1)
           else (Some err, w1))
      | (None, w1) \<Rightarrow>
          (None, Eventf (cd_Namespace clusterDeployment) (cd_Name clusterDeployment)
                   ''CertificateCreated'' ''Istio certificate '%s' is successfully created''
                   [GetCertName cfg (cd_Name clusterDeployment) (cd_Namespace clusterDeployment)]
                   w1))"

definition createCaMultiClusterService :: "config \<Rightarrow> ClusterDeployment \<Rightarrow> world \<Rightarrow> error option \<times> world" where
  "createCaMultiClusterService cfg cd w =
     (case client_Create (OMultiClusterService (caMultiClusterService cfg cd)) w of
        (Some err, w1) \<Rightarrow> (if IsAlreadyExists err then (None, w1) else (Some err, w1))
      | (None, w1) \<Rightarrow> (None, w1))"

definition CertManager_TryCreate :: "config \<Rightarrow> ClusterDeployment \<Rightarrow> world \<Rightarrow> error option \<times> world" where
  "CertManager_TryCreate cfg clusterDeployment w =
     (case createCertificate cfg (generateClusterCACertificate cfg clusterDeployment)
             clusterDeployment (log_Info ''Trying to create certificate'' [] w) of
        (Some err, w1) \<Rightarrow>
          (Some (Errorf ''failed to create istio certificate: %v'' [ArgE err]), w1)
      | (None, w1) \<Rightarrow>
          (if \<not> IsClusterDeploymentReady clusterDeployment
           then (None, log_Info ''Cluster deployment is not ready'' [] w1)
           else if \<not> IsInMesh clusterDeployment then (None, w1)
           else
             (case CreatedInKCMRegion clusterDeployment w1 of
                (Inl err, w2) \<Rightarrow>
                  (Some (Errorf ''failed to determine cluster region: %v'' [ArgE err]), w2)
              | (Inr createdInKCMRegion, w2) \<Rightarrow>
                  (if \<not> createdInKCMRegion then (None, w2)
                   else
                     (case createCaMultiClusterService cfg clusterDeployment
                             (log_Info
                                ''Trying to create MultiClusterService for certificate propagation to region clusters''
                                [] w2) of
                        (Some err, w3) \<Rightarrow>
                          (Some (Errorf
                             ''failed to create MultiClusterService for certificate propagation: %v''
                             [ArgE err]), w3)
                      | (None, w3) \<Rightarrow> (None, w3))))))"

text \<open>\<open>CertManager.TryDelete\<close>; the request carries the name and the namespace of the
  deleted cluster deployment.\<close>

definition CertManager_TryDelete :: "config \<Rightarrow> string \<Rightarrow> string \<Rightarrow> world \<Rightarrow> error option \<times> world" where
  "CertManager_TryDelete cfg name namespace w =
     (let certName = GetCertName cfg name namespace in
      case client_Delete (KCertificate, IstioSystemNamespace cfg, certName)
             (log_Info ''Trying to delete istio certificate''
                [(''certificateName'', VStr certName)] w) of
        (Some err, w1) \<Rightarrow>
          (if IsNotFound err
           then (None, log_Info ''Istio Certificate already deleted''
                         [(''certificateName'', VStr certName)] w1)
           else (Some (Errorf ''failed to delete istio certificate'' []), w1))
      | (None, w1) \<Rightarrow>
          (case client_Delete (KMultiClusterService, [], GetCertNameHash cfg name namespace)
                  (log_Info ''Trying to delete MultiClusterService for certificate propagation''
                     [] w1) of
             (Some err, w2) \<Rightarrow>
               (if IsNotFound err
                then (None, log_Info
                              ''MultiClusterService for certificate propagation already deleted''
                              [] w2)
                else (Some (Errorf ''failed to delete MultiClusterService: %v'' [ArgE err]), w2))
           | (None, w2) \<Rightarrow>
               (None, Eventf namespace name ''CertificateDeleted''
                        ''Istio certificate '%s' is successfully deleted'' [certName]
                        (log_Info ''Istio Certificate successfully deleted''
                           [(''certificateName'', VStr certName)] w2))))"

section \<open>Package multicluster: the manager of the remote-secret propagation\<close>

definition multiClusterServiceExists :: "ClusterDeployment \<Rightarrow> world \<Rightarrow> (error + bool) \<times> world" where
  "multiClusterServiceExists cd w =
     IsResourceExists
       (KMultiClusterService, [], GetMultiClusterServiceName (cd_Name cd) (cd_Namespace cd)) w"

definition createMultiClusterService :: "config \<Rightarrow> ClusterDeployment \<Rightarrow> world \<Rightarrow> error option \<times> world" where
  "createMultiClusterService cfg cd w =
     (case client_Create (OMultiClusterService (remoteSecretMultiClusterService cfg cd)) w of
        (Some err, w1) \<Rightarrow> (if IsAlreadyExists err then (None, w1) else (Some err, w1))
      | (None, w1) \<Rightarrow> (None, w1))"

definition RemoteSecretPropagationManager_TryCreate ::
  "config \<Rightarrow> ClusterDeployment \<Rightarrow> world \<Rightarrow> error option \<times> world" where
  "RemoteSecretPropagationManager_TryCreate cfg clusterDeployment w =
     (case multiClusterServiceExists clusterDeployment w of
        (Inl err, w1) \<Rightarrow>
          (Some (Errorf ''failed to check MultiClusterService existence: %v'' [ArgE err]), w1)
      | (Inr True, w1) \<Rightarrow> (None, log_Info ''MultiClusterService already exists'' [] w1)
      | (Inr False, w1) \<Rightarrow>
          (case createMultiClusterService cfg clusterDeployment
                  (log_Info ''Trying to create MultiClusterService for secret propagation'' [] w1) of
             (Some err, w2) \<Rightarrow>
               (Some (Errorf ''failed to create MultiClusterService resource: %v'' [ArgE err]), w2)
           | (None, w2) \<Rightarrow>
               (None, log_Info ''MultiClusterService successfully created'' []
                        (Eventf (cd_Namespace clusterDeployment) (cd_Name clusterDeployment)
                           ''MultiClusterServiceCreated''
                           ''MultiClusterService '%s' for secret propagation is successfully created''
                           [GetMultiClusterServiceName (cd_Name clusterDeployment)
                              (cd_Namespace clusterDeployment)] w2))))"

definition RemoteSecretPropagationManager_TryDelete ::
  "string \<Rightarrow> string \<Rightarrow> world \<Rightarrow> error option \<times> world" where
  "RemoteSecretPropagationManager_TryDelete name namespace w =
     (case client_Delete (KMultiClusterService, [], GetMultiClusterServiceName name namespace)
             (log_Info ''Trying to delete MultiClusterService for secret propagation'' [] w) of
        (Some err, w1) \<Rightarrow>
          (if IsNotFound err then (None, log_Info ''MultiClusterService already deleted'' [] w1)
           else (Some (Errorf ''failed to delete MultiClusterService: %v'' [ArgE err]), w1))
      | (None, w1) \<Rightarrow>
          (None, log_Info ''MultiClusterService successfully deleted'' []
                   (Eventf namespace name ''MultiClusterServiceDeleted''
                      ''MultiClusterService '%s' for secret propagation is successfully deleted''
                      [GetMultiClusterServiceName name namespace] w1)))"

section \<open>The reconciler of cluster deployments\<close>

text \<open>
  \<open>tryCreateResources\<close> calls the three managers in order and stops at the first error,
  which it logs and records as a warning event.  The controller calls the remote-secret
  manager without options: the Go zero value, \<open>AllowOverwrite = false\<close>.
\<close>

definition tryCreateResources :: "env \<Rightarrow> ClusterDeployment \<Rightarrow> world \<Rightarrow> error option \<times> world" where
  "tryCreateResources env clusterDeployment w =
     (case RemoteSecretManager_TryCreate env clusterDeployment \<lparr>AllowOverwrite = False\<rparr> w of
        (Some err, w1) \<Rightarrow>
          (Some err, LogEvent ''SecretCreationFailed'' ''Failed to create remote secret''
                       (cd_Namespace clusterDeployment) (cd_Name clusterDeployment) (Some err)
                       [(''remoteSecretName'', VStr (GetRemoteSecretName
                           (cd_Name clusterDeployment) (cd_Namespace clusterDeployment)))] w1)
      | (None, w1) \<Rightarrow>
          (case CertManager_TryCreate (env_cfg env) clusterDeployment w1 of
             (Some err, w2) \<Rightarrow>
               (Some err, LogEvent ''IstioCertCreationFailed''
                            ''Failed to create istio CA certificate''
                            (cd_Namespace clusterDeployment) (cd_Name clusterDeployment) (Some err)
                            [(''certName'', VStr (GetCertName (env_cfg env)
                                (cd_Name clusterDeployment) (cd_Namespace clusterDeployment)))] w2)
           | (None, w2) \<Rightarrow>
               (case RemoteSecretPropagationManager_TryCreate (env_cfg env) clusterDeployment w2 of
                  (Some err, w3) \<Rightarrow>
                    (Some err, LogEvent ''MultiClusterServiceCreationFailed''
                                 ''Failed to create MultiClusterService''
                                 (cd_Namespace clusterDeployment) (cd_Name clusterDeployment)
                                 (Some err)
                                 [(''multiClusterServiceName'', VStr (GetMultiClusterServiceName
                                     (cd_Name clusterDeployment) (cd_Namespace clusterDeployment)))]
                                 w3)
                | (None, w3) \<Rightarrow> (None, w3))))"

definition tryDeleteResources :: "env \<Rightarrow> string \<Rightarrow> string \<Rightarrow> world \<Rightarrow> error option \<times> world" where
  "tryDeleteResources env name namespace w =
     (case RemoteSecretManager_TryDelete env name namespace w of
        (Some err, w1) \<Rightarrow>
          (Some err, LogEvent ''SecretDeletionFailed'' ''Failed to delete remote secret''
                       namespace name (Some err)
                       [(''remoteSecretName'', VStr (GetRemoteSecretName name namespace))] w1)
      | (None, w1) \<Rightarrow>
          (case CertManager_TryDelete (env_cfg env) name namespace w1 of
             (Some err, w2) \<Rightarrow>
               (Some err, LogEvent ''IstioCertDeletionFailed'' ''Failed to delete istio certificate''
                            namespace name (Some err)
                            [(''certName'', VStr (GetCertName (env_cfg env) name namespace))] w2)
           | (None, w2) \<Rightarrow>
               (case RemoteSecretPropagationManager_TryDelete name namespace w2 of
                  (Some err, w3) \<Rightarrow>
                    (Some err, LogEvent ''MultiClusterServiceDeletionFailed''
                                 ''Failed to delete MultiClusterService'' namespace name (Some err)
                                 [(''multiClusterServiceName'',
                                   VStr (GetMultiClusterServiceName name namespace))] w3)
                | (None, w3) \<Rightarrow> (None, w3))))"

text \<open>\<open>Reconcile\<close>: the cluster deployment of the request is looked up; when it is not found
  the derived resources are deleted, otherwise they are created.\<close>

definition Reconcile :: "env \<Rightarrow> string \<Rightarrow> string \<Rightarrow> world \<Rightarrow> error option \<times> world" where
  "Reconcile env name namespace w =
     (case client_Get (KClusterDeployment, namespace, name) w of
        (Inl err, w1) \<Rightarrow>
          (if IsNotFound err then tryDeleteResources env name namespace w1
           else (Some err, log_Error err ''cannot read clusterDeployment'' [] w1))
      | (Inr (OClusterDeployment clusterDeployment), w1) \<Rightarrow>
          tryCreateResources env clusterDeployment w1
      | (Inr _, w1) \<Rightarrow> (Some StatusOther, log_Error StatusOther ''cannot read clusterDeployment'' [] w1))"

section \<open>Package secretrotation: the periodic rotation of the remote secrets\<close>

fun clusterDeployments_of :: "obj list \<Rightarrow> ClusterDeployment list" where
  "clusterDeployments_of [] = []"
| "clusterDeployments_of (OClusterDeployment cd # rest) = cd # clusterDeployments_of rest"
| "clusterDeployments_of (other # rest) = clusterDeployments_of rest"

text \<open>\<open>getIstioClusters\<close>: the list request with the selector \<open>IstioRoleLabel exists\<close>.\<close>

definition getIstioClusters :: "world \<Rightarrow> (error + ClusterDeployment list) \<times> world" where
  "getIstioClusters w =
     (case client_List KClusterDeployment [Requirement IstioRoleLabel Exists []] w of
        (Inl err, w1) \<Rightarrow> (Inl (Errorf ''failed to list clusters: %w'' [ArgE err]), w1)
      | (Inr items, w1) \<Rightarrow> (Inr (clusterDeployments_of items), w1))"

text \<open>The loop of \<open>rotateSecrets\<close> over the clusters, with the local variable
  \<open>successCount\<close>.\<close>

fun rotate_loop :: "env \<Rightarrow> ClusterDeployment list \<Rightarrow> nat \<Rightarrow> world \<Rightarrow> nat \<times> world" where
  "rotate_loop env [] successCount w = (successCount, w)"
| "rotate_loop env (cluster # rest) successCount w =
     (case RemoteSecretManager_TryCreate env cluster \<lparr>AllowOverwrite = True\<rparr> w of
        (Some err, w1) \<Rightarrow>
          rotate_loop env rest successCount
            (log_Error err ''Failed to rotate secret for cluster''
               [(''cluster'', VStr (cd_Name cluster)), (''namespace'', VStr (cd_Namespace cluster))]
               w1)
      | (None, w1) \<Rightarrow> rotate_loop env rest (successCount + 1) w1)"

definition rotateSecrets :: "env \<Rightarrow> world \<Rightarrow> world" where
  "rotateSecrets env w =
     (case getIstioClusters (log_Info ''Starting secret rotation cycle'' [] w) of
        (Inl err, w1) \<Rightarrow> log_Error err ''Failed to get Istio clusters for secret rotation'' [] w1
      | (Inr clusters, w1) \<Rightarrow>
          (if length clusters = 0
           then log_Info ''No Istio clusters found for secret rotation'' [] w1
           else
             (case rotate_loop env clusters 0
                     (log_Info ''Rotating secrets for clusters''
                        [(''count'', VNat (length clusters))] w1) of
                (successCount, w2) \<Rightarrow>
                  log_Info ''Secret rotation cycle completed''
                    [(''total'', VNat (length clusters)), (''successful'', VNat successCount),
                     (''failed'', VNat (length clusters - successCount))] w2)))"

section \<open>Observations on a run\<close>

text \<open>The requests of the trace that change the store: every verb but \<open>Get\<close> and
  \<open>List\<close>.\<close>

definition is_write :: "verb \<times> key \<Rightarrow> bool" where
  "is_write c = (fst c \<noteq> Get \<and> fst c \<noteq> List)"

definition writes :: "world \<Rightarrow> (verb \<times> key) list" where
  "writes w = filter is_write (calls w)"

text \<open>The outcomes of a rotation cycle in the words of the specification: the credential
  builder is invoked with the overwrite directive for each cluster in turn, whatever the
  outcome for the clusters before it.\<close>

fun rotation_results :: "env \<Rightarrow> ClusterDeployment list \<Rightarrow> world \<Rightarrow> error option list" where
  "rotation_results env [] w = []"
| "rotation_results env (cluster # rest) w =
     (case RemoteSecretManager_TryCreate env cluster \<lparr>AllowOverwrite = True\<rparr> w of
        (Some err, w1) \<Rightarrow>
          Some err # rotation_results env rest
            (log_Error err ''Failed to rotate secret for cluster''
               [(''cluster'', VStr (cd_Name cluster)), (''namespace'', VStr (cd_Namespace cluster))]
               w1)
      | (None, w1) \<Rightarrow> None # rotation_results env rest w1)"

subsection \<open>Example worlds\<close>

definition example_cfg :: config where
  "example_cfg = \<lparr>IstioSystemNamespace = ''istio-system'', IstioReleaseName = ''rel''\<rparr>"

definition empty_world :: world where
  "empty_world = \<lparr>objs = [], faults = (\<lambda>n v k. False), calls = [], events = [], logs = []\<rparr>"

text \<open>An environment with the fake creator of the tests; kubeconfig secrets are named
  \<open>{name}-kubeconfig\<close>, and no region cluster can be reached.\<close>

definition example_env :: env where
  "example_env =
     \<lparr> env_cfg = example_cfg,
       env_GetSecretName = (\<lambda>cd. cd_Name cd @ ''-kubeconfig''),
       env_NewKubeClientFromKubeconfig = (\<lambda>kubeconfig. Inl StatusOther),
       env_GetRemoteSecret = FakeRemoteSecretCreator_GetRemoteSecret example_cfg \<rparr>"

definition example_cluster :: "string \<Rightarrow> labels \<Rightarrow> Condition list \<Rightarrow> ClusterDeployment" where
  "example_cluster name ls conditions =
     \<lparr> cd_Name = name, cd_Namespace = ''ns1'', cd_Labels = ls,
       cd_Template = ''aws-standalone'', cd_Credential = ''aws-cred'',
       cd_Conditions = conditions \<rparr>"

text \<open>A store in which the certificate of the cluster \<open>c1\<close> is gone while the descriptor
  that propagates its CA is still there.\<close>

definition orphaned_descriptor_world :: world where
  "orphaned_descriptor_world =
     empty_world\<lparr>objs :=
       [((KMultiClusterService, [], GetCertNameHash example_cfg ''c1'' ''ns1''),
         OMultiClusterService (caMultiClusterService example_cfg
           (example_cluster ''c1'' [(IstioRoleLabel, ''member''), (IstioMeshLabel, ''mesh1'')] [])))]\<rparr>"

text \<open>A ready cluster, a cluster without conditions, and a store that already holds the
  remote secret of the cluster \<open>c1\<close>.\<close>

definition ready_cluster :: ClusterDeployment where
  "ready_cluster =
     example_cluster ''c1'' [(IstioRoleLabel, ''member'')]
       [\<lparr>cond_Type = CAPIClusterSummaryCondition, cond_Status = ''True''\<rparr>]"

definition pending_cluster :: ClusterDeployment where
  "pending_cluster = example_cluster ''c1'' [(IstioRoleLabel, ''member'')] []"

definition credential_present_world :: world where
  "credential_present_world =
     empty_world\<lparr>objs :=
       [((KSecret, ''istio-system'', GetRemoteSecretName ''c1'' ''ns1''),
         OSecret (filled_secret ''istio-system'' (GetRemoteSecretName ''c1'' ''ns1'')))]\<rparr>"

section \<open>Readiness\<close>

lemma readiness_loop_iff:
  "readiness_loop cd cs r \<longleftrightarrow>
     r \<or> (\<exists>c \<in> set cs. cond_Type c =
            (if IsAdopted cd then ReadyCondition else CAPIClusterSummaryCondition))"
  by (induction cs arbitrary: r) auto

text \<open>
  Claim C10.  \<open>IsClusterDeploymentReady\<close> is true exactly when some condition of the
  expected type (\<open>Ready\<close> for an adopted cluster, \<open>CAPIClusterSummary\<close> otherwise) is in
  the conditions list; the \<open>Status\<close> of that condition is never read, so rewriting every
  status to any value leaves the answer unchanged, and an empty list means not ready.
\<close>

theorem IsClusterDeploymentReady_presence_only:
  "(IsClusterDeploymentReady cd \<longleftrightarrow>
      (\<exists>c \<in> set (cd_Conditions cd). cond_Type c =
         (if IsAdopted cd then ReadyCondition else CAPIClusterSummaryCondition)))
   \<and> IsClusterDeploymentReady
        (cd\<lparr>cd_Conditions := map (\<lambda>c. c\<lparr>cond_Status := s\<rparr>) (cd_Conditions cd)\<rparr>)
      = IsClusterDeploymentReady cd
   \<and> (cd_Conditions cd = [] \<longrightarrow> \<not> IsClusterDeploymentReady cd)"
proof -
  have adopted: "IsAdopted (cd\<lparr>cd_Conditions := cs\<rparr>) = IsAdopted cd" for cs
    by (simp add: IsAdopted_def)
  have "IsClusterDeploymentReady
          (cd\<lparr>cd_Conditions := map (\<lambda>c. c\<lparr>cond_Status := s\<rparr>) (cd_Conditions cd)\<rparr>)
        = IsClusterDeploymentReady cd"
    unfolding IsClusterDeploymentReady_def readiness_loop_iff adopted by simp
  then show ?thesis
    by (simp add: IsClusterDeploymentReady_def readiness_loop_iff)
qed

theorem IsClusterDeploymentReady_presence_only_witness:
  "IsClusterDeploymentReady
     \<lparr> cd_Name = ''c1'', cd_Namespace = ''ns1'', cd_Labels = [], cd_Template = ''aws-cluster'',
       cd_Credential = ''cred'',
       cd_Conditions = [\<lparr> cond_Type = ''CAPIClusterSummary'', cond_Status = ''False'' \<rparr>] \<rparr>
   \<and> IsClusterDeploymentReady
     \<lparr> cd_Name = ''c2'', cd_Namespace = ''ns1'', cd_Labels = [], cd_Template = ''adopted-cluster'',
       cd_Credential = ''cred'',
       cd_Conditions = [\<lparr> cond_Type = ''Ready'', cond_Status = ''False'' \<rparr>] \<rparr>
   \<and> \<not> IsClusterDeploymentReady
     \<lparr> cd_Name = ''c1'', cd_Namespace = ''ns1'', cd_Labels = [], cd_Template = ''aws-cluster'',
       cd_Credential = ''cred'', cd_Conditions = [] \<rparr>"
  using
    IsClusterDeploymentReady_presence_only [of
      "\<lparr> cd_Name = ''c1'', cd_Namespace = ''ns1'', cd_Labels = [], cd_Template = ''aws-cluster'',
         cd_Credential = ''cred'',
         cd_Conditions = [\<lparr> cond_Type = ''CAPIClusterSummary'', cond_Status = ''False'' \<rparr>] \<rparr>"]
    IsClusterDeploymentReady_presence_only [of
      "\<lparr> cd_Name = ''c2'', cd_Namespace = ''ns1'', cd_Labels = [], cd_Template = ''adopted-cluster'',
         cd_Credential = ''cred'',
         cd_Conditions = [\<lparr> cond_Type = ''Ready'', cond_Status = ''False'' \<rparr>] \<rparr>"]
    IsClusterDeploymentReady_presence_only [of
      "\<lparr> cd_Name = ''c1'', cd_Namespace = ''ns1'', cd_Labels = [], cd_Template = ''aws-cluster'',
         cd_Credential = ''cred'', cd_Conditions = [] \<rparr>"]
  by (simp add: IsAdopted_def HasPrefix_def ReadyCondition_def CAPIClusterSummaryCondition_def)

section \<open>Derived names of the end-to-end scenario\<close>

lemma fnv32a_ns1_c1: "fnv32a_Sum32 ''ns1-c1'' = 1058219072"
  by (simp add: fnv32a_Sum32_def fnv_offset32_def fnv_prime32_def)

lemma sprintf_x_ns1_c1: "sprintf_x 1058219072 = ''3f132440''"
  by (simp add: sprintf_x.simps hex_digit_def)

text \<open>
  Claim C6.  For the cluster \<open>c1\<close> in namespace \<open>ns1\<close> and release name \<open>rel\<close>: the CA
  request is named \<open>rel-ns1-c1-ca\<close>; the credential is named \<open>istio-remote-secret-\<close>
  followed by the lowercase hexadecimal FNV-1a 32-bit hash of \<open>ns1-c1\<close> (which is
  \<open>3f132440\<close>); the propagation descriptor is named \<open>remote-secret-propagation-\<close> followed
  by the same hash; and the descriptor selects the clusters whose membership label has the
  current value \<open>member\<close>.
\<close>

theorem scenario_c1_ns1_names:
  "GetCertName \<lparr>IstioSystemNamespace = ''istio-system'', IstioReleaseName = ''rel''\<rparr> ''c1'' ''ns1''
     = ''rel-ns1-c1-ca''
   \<and> GetRemoteSecretName ''c1'' ''ns1''
     = ''istio-remote-secret-'' @ sprintf_x (unat (fnv32a_Sum32 ''ns1-c1''))
   \<and> GetRemoteSecretName ''c1'' ''ns1'' = ''istio-remote-secret-3f132440''
   \<and> GetMultiClusterServiceName ''c1'' ''ns1''
     = ''remote-secret-propagation-'' @ sprintf_x (unat (fnv32a_Sum32 ''ns1-c1''))
   \<and> GetMultiClusterServiceName ''c1'' ''ns1'' = ''remote-secret-propagation-3f132440''
   \<and> mcs_Name (remoteSecretMultiClusterService
         \<lparr>IstioSystemNamespace = ''istio-system'', IstioReleaseName = ''rel''\<rparr>
         \<lparr> cd_Name = ''c1'', cd_Namespace = ''ns1'', cd_Labels = [(IstioRoleLabel, ''member'')],
           cd_Template = ''aws-cluster'', cd_Credential = ''cred'', cd_Conditions = [] \<rparr>)
     = ''remote-secret-propagation-3f132440''
   \<and> mcs_ClusterSelector (remoteSecretMultiClusterService
         \<lparr>IstioSystemNamespace = ''istio-system'', IstioReleaseName = ''rel''\<rparr>
         \<lparr> cd_Name = ''c1'', cd_Namespace = ''ns1'', cd_Labels = [(IstioRoleLabel, ''member'')],
           cd_Template = ''aws-cluster'', cd_Credential = ''cred'', cd_Conditions = [] \<rparr>)
     = [(''k0rdent.mirantis.com/istio-role'', ''member'')]
   \<and> ''member'' = hd IstioRoleLabelExpectedValues"
  by (simp add: GetCertName_def GetRemoteSecretName_def GetMultiClusterServiceName_def
      GetNameHash_def remoteSecretPrefix_def remoteSecretMultiClusterService_def
      IstioRoleLabel_def IstioRoleLabelExpectedValues_def fnv32a_ns1_c1 sprintf_x_ns1_c1)

section \<open>The CA request record\<close>

text \<open>
  Claim C7.  The certificate request generated for any cluster is named
  \<open>{releaseName}-{namespace}-{clusterName}-ca\<close>, is a CA, has common name
  \<open>{clusterName} CA\<close>, organization \<open>Istio\<close>, an ECDSA private key of size 521, stores
  its key material in a secret named like the record itself, and refers to the shared
  root issuer \<open>{releaseName}-root\<close>.
\<close>

theorem generateClusterCACertificate_fields:
  "cert_Name (generateClusterCACertificate cfg cd)
     = IstioReleaseName cfg @ ''-'' @ cd_Namespace cd @ ''-'' @ cd_Name cd @ ''-ca''
   \<and> cert_IsCA (generateClusterCACertificate cfg cd)
   \<and> cert_CommonName (generateClusterCACertificate cfg cd) = cd_Name cd @ '' CA''
   \<and> cert_Organizations (generateClusterCACertificate cfg cd) = [''Istio'']
   \<and> cert_KeyAlgorithm (generateClusterCACertificate cfg cd) = ECDSAKeyAlgorithm
   \<and> cert_KeySize (generateClusterCACertificate cfg cd) = 521
   \<and> cert_SecretName (generateClusterCACertificate cfg cd)
     = cert_Name (generateClusterCACertificate cfg cd)
   \<and> issuer_Name (cert_IssuerRef (generateClusterCACertificate cfg cd))
     = IstioReleaseName cfg @ ''-root''
   \<and> issuer_Kind (cert_IssuerRef (generateClusterCACertificate cfg cd)) = ''Issuer''"
  by (simp add: generateClusterCACertificate_def GetCertName_def Let_def)

section \<open>The legacy token path\<close>





section \<open>The bounded wait for the token data\<close>










section \<open>Effects of the client requests\<close>

lemma log_Info_fields [simp]:
  "objs (log_Info m kvs w) = objs w" "calls (log_Info m kvs w) = calls w"
  "faults (log_Info m kvs w) = faults w" "events (log_Info m kvs w) = events w"
  by (simp_all add: log_Info_def)

lemma log_Error_fields [simp]:
  "objs (log_Error e m kvs w) = objs w" "calls (log_Error e m kvs w) = calls w"
  "faults (log_Error e m kvs w) = faults w" "events (log_Error e m kvs w) = events w"
  by (simp_all add: log_Error_def)

lemma Eventf_fields [simp]:
  "objs (Eventf ns n r f as w) = objs w" "calls (Eventf ns n r f as w) = calls w"
  "faults (Eventf ns n r f as w) = faults w"
  by (simp_all add: Eventf_def)

lemma LogEvent_fields [simp]:
  "objs (LogEvent r m ns n e kvs w) = objs w" "calls (LogEvent r m ns n e kvs w) = calls w"
  "faults (LogEvent r m ns n e kvs w) = faults w"
  by (simp_all add: LogEvent_def split: option.splits)

lemma writes_log [simp]:
  "writes (log_Info m kvs w) = writes w" "writes (log_Error e m kvs w) = writes w"
  "writes (Eventf ns n r f as w) = writes w" "writes (LogEvent r m ns n e' kvs w) = writes w"
  by (simp_all add: writes_def)

lemma api_fault_log [simp]:
  "api_fault v k (log_Info m kvs w) = api_fault v k w"
  "api_fault v k (log_Error e m kvs w) = api_fault v k w"
  "api_fault v k (Eventf ns n r f as w) = api_fault v k w"
  by (simp_all add: api_fault_def)

lemma record_call_fields [simp]:
  "objs (record_call v k w) = objs w" "calls (record_call v k w) = calls w @ [(v, k)]"
  "faults (record_call v k w) = faults w" "events (record_call v k w) = events w"
  by (simp_all add: record_call_def)

lemma writes_record_call [simp]:
  "writes (record_call v k w) = writes w @ (if v = Get \<or> v = List then [] else [(v, k)])"
  by (simp add: writes_def is_write_def)

lemma client_Get_eq:
  "client_Get k w =
     (if faults w (length (calls w)) Get k then Inl StatusOther
      else (case map_of (objs w) k of None \<Rightarrow> Inl StatusNotFound | Some ob \<Rightarrow> Inr ob),
      record_call Get k w)"
  by (simp add: client_Get_def api_fault_def)

lemma IsResourceExists_eq:
  "IsResourceExists k w =
     (if faults w (length (calls w)) Get k then Inl StatusOther
      else Inr (map_of (objs w) k \<noteq> None),
      record_call Get k w)"
  by (simp add: IsResourceExists_def client_Get_eq IsNotFound_def split: option.splits)

section \<open>Deleting the certificate and its propagation descriptor\<close>

text \<open>
  Claim C2 asks that \<open>CertManager.TryDelete\<close> removes the CA-propagation descriptor also
  when the certificate is already gone.  In a store that holds the descriptor but not the
  certificate, the function reports success after the single delete request for the
  certificate: it returns on the not-found answer, issues no delete for the descriptor,
  and the descriptor stays in the store.
\<close>

theorem CertManager_TryDelete_orphans_descriptor:
  "fst (CertManager_TryDelete example_cfg ''c1'' ''ns1'' orphaned_descriptor_world) = None
   \<and> map_of (objs (snd (CertManager_TryDelete example_cfg ''c1'' ''ns1'' orphaned_descriptor_world)))
        (KMultiClusterService, [], GetCertNameHash example_cfg ''c1'' ''ns1'') \<noteq> None
   \<and> calls (snd (CertManager_TryDelete example_cfg ''c1'' ''ns1'' orphaned_descriptor_world))
     = [(Delete, (KCertificate, ''istio-system'', ''rel-ns1-c1-ca''))]"
  by (simp add: CertManager_TryDelete_def orphaned_descriptor_world_def empty_world_def
      client_Delete_def api_fault_def record_call_def IsNotFound_def Let_def example_cfg_def
      GetCertName_def)

section \<open>The skips of the credential builder\<close>

text \<open>
  Claim C4.  Without the overwrite option, \<open>RemoteSecretManager.TryCreate\<close> on a cluster that
  is not ready returns success and issues no request at all, so nothing is created; and
  when a secret with the derived name exists (and the lookup itself is answered), it
  returns success and issues no writing request, leaving the store as it was.
\<close>

theorem RemoteSecretManager_TryCreate_skips:
  "(\<not> IsClusterDeploymentReady cd \<and> \<not> AllowOverwrite opt \<longrightarrow>
      fst (RemoteSecretManager_TryCreate env cd opt w) = None
      \<and> objs (snd (RemoteSecretManager_TryCreate env cd opt w)) = objs w
      \<and> calls (snd (RemoteSecretManager_TryCreate env cd opt w)) = calls w
      \<and> events (snd (RemoteSecretManager_TryCreate env cd opt w)) = events w)
   \<and> (\<not> AllowOverwrite opt
       \<and> map_of (objs w) (KSecret, IstioSystemNamespace (env_cfg env),
            GetRemoteSecretName (cd_Name cd) (cd_Namespace cd)) \<noteq> None
       \<and> \<not> faults w (length (calls w)) Get (KSecret, IstioSystemNamespace (env_cfg env),
            GetRemoteSecretName (cd_Name cd) (cd_Namespace cd)) \<longrightarrow>
      fst (RemoteSecretManager_TryCreate env cd opt w) = None
      \<and> objs (snd (RemoteSecretManager_TryCreate env cd opt w)) = objs w
      \<and> writes (snd (RemoteSecretManager_TryCreate env cd opt w)) = writes w
      \<and> events (snd (RemoteSecretManager_TryCreate env cd opt w)) = events w)"
proof -
  let ?k = "(KSecret, IstioSystemNamespace (env_cfg env),
            GetRemoteSecretName (cd_Name cd) (cd_Namespace cd))"
  let ?w0 = "log_Info ''Trying to create remote secret'' [] w"
  have not_ready: "\<not> IsClusterDeploymentReady cd \<and> \<not> AllowOverwrite opt \<longrightarrow>
      fst (RemoteSecretManager_TryCreate env cd opt w) = None
      \<and> objs (snd (RemoteSecretManager_TryCreate env cd opt w)) = objs w
      \<and> calls (snd (RemoteSecretManager_TryCreate env cd opt w)) = calls w
      \<and> events (snd (RemoteSecretManager_TryCreate env cd opt w)) = events w"
    by (simp add: RemoteSecretManager_TryCreate_def Let_def)
  have exists: "fst (RemoteSecretManager_TryCreate env cd opt w) = None
      \<and> objs (snd (RemoteSecretManager_TryCreate env cd opt w)) = objs w
      \<and> writes (snd (RemoteSecretManager_TryCreate env cd opt w)) = writes w
      \<and> events (snd (RemoteSecretManager_TryCreate env cd opt w)) = events w"
    if h: "\<not> AllowOverwrite opt \<and> map_of (objs w) ?k \<noteq> None
       \<and> \<not> faults w (length (calls w)) Get ?k"
  proof -
    have ex: "remoteSecretExists env cd ?w0 = (Inr True, record_call Get ?k ?w0)"
      using h by (simp add: remoteSecretExists_def IsResourceExists_eq)
    show ?thesis
      using h by (simp add: RemoteSecretManager_TryCreate_def Let_def ex)
  qed
  from not_ready exists show ?thesis by blast
qed

theorem RemoteSecretManager_TryCreate_skips_witness:
  "fst (RemoteSecretManager_TryCreate example_env pending_cluster \<lparr>AllowOverwrite = False\<rparr>
          empty_world) = None
   \<and> calls (snd (RemoteSecretManager_TryCreate example_env pending_cluster
          \<lparr>AllowOverwrite = False\<rparr> empty_world)) = []
   \<and> fst (RemoteSecretManager_TryCreate example_env ready_cluster \<lparr>AllowOverwrite = False\<rparr>
          credential_present_world) = None
   \<and> writes (snd (RemoteSecretManager_TryCreate example_env ready_cluster
          \<lparr>AllowOverwrite = False\<rparr> credential_present_world)) = []
   \<and> objs (snd (RemoteSecretManager_TryCreate example_env ready_cluster
          \<lparr>AllowOverwrite = False\<rparr> credential_present_world)) = objs credential_present_world"
  using
    RemoteSecretManager_TryCreate_skips [of pending_cluster "\<lparr>AllowOverwrite = False\<rparr>"
      example_env empty_world]
    RemoteSecretManager_TryCreate_skips [of ready_cluster "\<lparr>AllowOverwrite = False\<rparr>"
      example_env credential_present_world]
  by (simp add: pending_cluster_def ready_cluster_def example_cluster_def example_env_def
      example_cfg_def empty_world_def credential_present_world_def IsClusterDeploymentReady_def
      IsAdopted_def HasPrefix_def CAPIClusterSummaryCondition_def writes_def)

end
